theory Spec2Isabelle
  imports Main
begin

section \<open>Wallet address helpers (walletUtils.ts)\<close>

text \<open>
  JavaScript strings are sequences of UTF-16 code units; \<open>slice\<close> counts code units.
  A \<^typ>\<open>string\<close> here is the list of those units (wallet addresses are ASCII, one
  unit per character). A thrown exception is the \<open>Inl\<close> side of a sum.
\<close>

definition js_slice :: "string \<Rightarrow> int \<Rightarrow> int option \<Rightarrow> string" where
  \<comment> \<open>\<open>String.prototype.slice(start, end)\<close>: a negative index counts from the end, both
      indices are clamped to the string, an omitted end is the length.\<close>
  "js_slice s start end =
     (let len = int (length s);
          from = (if start < 0 then max (len + start) 0 else min start len);
          to = (case end of
                  None \<Rightarrow> len
                | Some e \<Rightarrow> if e < 0 then max (len + e) 0 else min e len)
      in take (nat (to - from)) (drop (nat from) s))"

definition createEmail :: "string \<Rightarrow> string \<Rightarrow> string" where
  "createEmail alias mailDomain = alias @ ''@'' @ mailDomain"

definition abbreviateWalletAddress :: "string option \<Rightarrow> int option \<Rightarrow> int option \<Rightarrow> string" where
  \<comment> \<open>\<open>!walletAddress\<close> holds for \<open>undefined\<close> (\<open>None\<close>) and for the empty string;
      \<open>x ?? d\<close> is \<open>d\<close> when \<open>x\<close> is omitted.\<close>
  "abbreviateWalletAddress walletAddress startChars endChars =
     (case walletAddress of
        None \<Rightarrow> ''''
      | Some w \<Rightarrow>
          if w = '''' then ''''
          else js_slice w 0 (Some (2 + (case startChars of None \<Rightarrow> 3 | Some n \<Rightarrow> n)))
               @ ''...''
               @ js_slice w (- (case endChars of None \<Rightarrow> 4 | Some n \<Rightarrow> n)) None)"

definition createAbbreviatedWalletEmail :: "string \<Rightarrow> string \<Rightarrow> string" where
  "createAbbreviatedWalletEmail walletAddr mailDomain =
     createEmail (abbreviateWalletAddress (Some walletAddr) None None) mailDomain"

text \<open>
  \<open>Bech32Address.validate\<close> belongs to an external library: it is a parameter that
  either returns (\<open>Inr ()\<close>) or throws (\<open>Inl e\<close>). The result of
  \<open>isCosmosHubAddress\<close> is a sum as well, so that "never throws" is a statement about
  the function and not about its type.
\<close>

definition isCosmosHubAddress :: "(string \<Rightarrow> string \<Rightarrow> 'e + unit) \<Rightarrow> string option \<Rightarrow> 'e + bool" where
  "isCosmosHubAddress validate emailAlias =
     (case emailAlias of
        None \<Rightarrow> Inr False
      | Some a \<Rightarrow>
          if a = '''' then Inr False
          else (case validate a ''cosmos'' of
                  Inr _ \<Rightarrow> Inr True
                | Inl _ \<Rightarrow> Inr False))"

datatype Icon = Ethereum | Atom | Solana

text \<open>
  The address tests of \<open>validator\<close> and \<open>skiff-utils\<close> are external as well: they are
  the fields of a record of predicates on strings.
\<close>

record 'e addressTests =
  Bech32Address_validate :: "string \<Rightarrow> string \<Rightarrow> 'e + unit"
  isEthereumAddress :: "string \<Rightarrow> bool"
  isENSName :: "string \<Rightarrow> bool"
  isJunoAddress :: "string \<Rightarrow> bool"
  isICNSName :: "string \<Rightarrow> bool"
  isSolanaAddress :: "string \<Rightarrow> bool"

definition getWalletIcon :: "'e addressTests \<Rightarrow> string option \<Rightarrow> 'e + Icon option" where
  "getWalletIcon t alias =
     (case alias of
        None \<Rightarrow> Inr None
      | Some a \<Rightarrow>
          if a = '''' then Inr None
          else if isEthereumAddress t a \<or> isENSName t a then Inr (Some Ethereum)
          else (case isCosmosHubAddress (Bech32Address_validate t) (Some a) of
                  Inl e \<Rightarrow> Inl e
                | Inr cosmos \<Rightarrow>
                    if cosmos \<or> isJunoAddress t a \<or> isICNSName t a then Inr (Some Atom)
                    else if isSolanaAddress t a then Inr (Some Solana)
                    else Inr None))"

section \<open>Cached login (tryCachedLogin)\<close>

subsection \<open>Data\<close>

text \<open>
  An optional string field of a GraphQL object or of the cached user is \<open>undefined\<close>,
  \<open>null\<close> or a string. Only a non-empty string is truthy.
\<close>

datatype nullable_string = Undefined | Null | Str string

fun truthy :: "nullable_string \<Rightarrow> bool" where
  "truthy Undefined = False"
| "truthy Null = False"
| "truthy (Str s) = (s \<noteq> '''')"

text \<open>
  The fields of \<open>GetSessionCacheQuery['currentUser']\<close> that the login reads. The type of
  \<open>publicData\<close> is declared elsewhere: it is the parameter \<open>'p\<close>.
\<close>

record 'p refreshedUser =
  recoveryEmail :: nullable_string
  unverifiedRecoveryEmail :: nullable_string
  walletAddress :: nullable_string
  rootOrgID :: nullable_string
  publicData :: 'p

text \<open>
  \<open>models.User\<close>: the fields the login touches, and all its other fields together as
  \<open>otherFields\<close> (their declaration is not part of these sources).
\<close>

record ('p, 'r) User =
  userID :: string
  recoveryEmail :: nullable_string
  unverifiedRecoveryEmail :: nullable_string
  walletAddress :: nullable_string
  rootOrgID :: nullable_string
  publicData :: 'p
  otherFields :: 'r

record ('p, 'r, 's) SessionCacheData =
  user :: "('p, 'r) User"
  otherData :: 's

record sessionCache =
  cacheKey :: string
  alternativeCacheKeys :: "string list"

text \<open>\<open>res.data\<close> of the session-cache query; a \<open>currentUser\<close> that is \<open>null\<close> or \<open>undefined\<close> is \<open>None\<close>.\<close>

record 'p GetSessionCacheQuery =
  sessionCache :: sessionCache
  currentUser :: "'p refreshedUser option"

datatype logicErrorType = NotFound | BadRequest | NotAuthorized | OtherLogicError

text \<open>What \<open>client.query\<close> throws: an \<open>ApolloError\<close> with its \<open>graphQLErrors\<close>, or anything else.\<close>

datatype queryError = ApolloError "logicErrorType list" | NonApolloError

text \<open>
  Modelled from the spec: \<open>isApolloLogicErrorType\<close> of \<open>skiff-graphql\<close> is not part of
  these sources. It tells whether a GraphQL error is of the given type; the first element of
  an empty \<open>graphQLErrors\<close> is \<open>undefined\<close>, which is of no type.
\<close>

definition isApolloLogicErrorType :: "logicErrorType option \<Rightarrow> logicErrorType \<Rightarrow> bool" where
  "isApolloLogicErrorType e t = (e = Some t)"

definition first_graphQLError :: "logicErrorType list \<Rightarrow> logicErrorType option" where
  \<comment> \<open>\<open>e.graphQLErrors[0]\<close>\<close>
  "first_graphQLError es = (case es of [] \<Rightarrow> None | x # _ \<Rightarrow> Some x)"

subsection \<open>The browser and the collaborators\<close>

text \<open>
  The login runs against the browser's local storage and against functions of other
  packages. The state is the local storage, a map from keys to stored strings, together
  with the list of the calls made so far, in order. The collaborators that touch local
  state are parameters that transform the storage; the others only leave their call in the
  trace. The query, the decryption and the write of the session cache data either return
  or throw; the other collaborators are taken to return normally.
\<close>

datatype ('p, 'r, 's) event =
    E_getSessionCacheForLatestUser
  | E_client_query
  | E_decryptSessionCacheData string string
  | E_localStorage_getItem string
  | E_writeSessionCacheData "('p, 'r, 's) SessionCacheData" string
  | E_localStorage_removeItem string
  | E_clearLatestUserIDCache
  | E_setNextUUID
  | E_window_location_reload
  | E_console_log
  | E_console_error
  | E_saveCurrentUserData "('p, 'r) User"
  | E_sendUserDataToMobileApp "('p, 'r) User"
  | E_setDefaultEmailAlias

record ('p, 'r, 's) world =
  localStorage :: "string \<rightharpoonup> string"
  trace :: "('p, 'r, 's) event list"

record ('p, 'r, 's) env =
  window_location :: nat
  window_parent_location :: nat
  getSessionCacheForLatestUser :: "(string \<rightharpoonup> string) \<Rightarrow> string option"
  client_query :: "queryError + 'p GetSessionCacheQuery"
  decryptSessionCacheData :: "string \<Rightarrow> string \<Rightarrow> ('p, 'r, 's) SessionCacheData option"
  getSessionCacheKeyForUserID :: "string \<Rightarrow> string"
  storageKey_SESSION_CACHE :: string
  encryptSessionCacheData :: "('p, 'r, 's) SessionCacheData \<Rightarrow> string \<Rightarrow> string"
  writeSessionCacheData_throws ::
    "('p, 'r, 's) SessionCacheData \<Rightarrow> string \<Rightarrow> (string \<rightharpoonup> string) \<Rightarrow> bool"
  clearLatestUserIDCache :: "(string \<rightharpoonup> string) \<Rightarrow> (string \<rightharpoonup> string)"
  setNextUUID :: "(string \<rightharpoonup> string) \<Rightarrow> bool \<times> (string \<rightharpoonup> string)"
  saveCurrentUserData :: "('p, 'r) User \<Rightarrow> (string \<rightharpoonup> string) \<Rightarrow> (string \<rightharpoonup> string)"
  isMobileApp :: bool

definition call :: "('p, 'r, 's) event \<Rightarrow> ('p, 'r, 's) world \<Rightarrow> ('p, 'r, 's) world" where
  "call e w = w\<lparr>trace := trace w @ [e]\<rparr>"

definition removeItem :: "string \<Rightarrow> (string \<rightharpoonup> string) \<Rightarrow> (string \<rightharpoonup> string)" where
  \<comment> \<open>\<open>localStorage.removeItem(k)\<close>\<close>
  "removeItem k s = s(k := None)"

definition store ::
  "((string \<rightharpoonup> string) \<Rightarrow> (string \<rightharpoonup> string)) \<Rightarrow> ('p, 'r, 's) world \<Rightarrow> ('p, 'r, 's) world" where
  "store f w = w\<lparr>localStorage := f (localStorage w)\<rparr>"

text \<open>
  Modelled from the spec: \<open>writeSessionCacheData\<close> of \<open>skiff-front-graphql\<close> is not part of
  these sources. It encrypts the session cache data with the given key and stores the
  result under the per-user-ID key of the data's user. It can throw (a full storage, a
  failing encryption); then it has stored nothing, and the result is \<open>None\<close>. When it
  throws is a parameter, and so is the encryption.
\<close>

definition writeSessionCacheData ::
  "('p, 'r, 's) env \<Rightarrow> ('p, 'r, 's) SessionCacheData \<Rightarrow> string \<Rightarrow> (string \<rightharpoonup> string)
     \<Rightarrow> (string \<rightharpoonup> string) option" where
  "writeSessionCacheData env sessionCacheData key s =
     (if writeSessionCacheData_throws env sessionCacheData key s then None
      else Some (s(getSessionCacheKeyForUserID env (userID (user sessionCacheData))
                     \<mapsto> encryptSessionCacheData env sessionCacheData key)))"

subsection \<open>The code\<close>

definition setNextIDAndReload :: "('p, 'r, 's) env \<Rightarrow> ('p, 'r, 's) world \<Rightarrow> ('p, 'r, 's) world" where
  "setNextIDAndReload env w =
     (let w1 = store (clearLatestUserIDCache env) (call E_clearLatestUserIDCache w);
          shouldReload = fst (setNextUUID env (localStorage w1));
          w2 = store (\<lambda>s. snd (setNextUUID env s)) (call E_setNextUUID w1)
      in if shouldReload then call E_window_location_reload w2 else w2)"

text \<open>
  Lines 99 to 109: the attempt with the primary key. The empty \<open>catch\<close> takes whatever the
  block throws. A decryption that throws leaves \<open>decryptedUser\<close> at \<open>null\<close> (\<open>None\<close>). A
  write that throws comes after \<open>decryptedUser\<close> has been assigned: the user stays, and the
  \<open>removeItem\<close> after the write is not reached. \<open>getItem\<close> and \<open>removeItem\<close> are the
  operations of the browser's \<open>Storage\<close>, which do not throw.
\<close>

definition tryPrimaryKey ::
  "('p, 'r, 's) env \<Rightarrow> string \<Rightarrow> string \<Rightarrow> ('p, 'r, 's) world
     \<Rightarrow> ('p, 'r) User option \<times> ('p, 'r, 's) world" where
  "tryPrimaryKey env encryptedSessionCacheData key w =
     (let w1 = call (E_decryptSessionCacheData encryptedSessionCacheData key) w
      in case decryptSessionCacheData env encryptedSessionCacheData key of
           None \<Rightarrow> (None, w1)
         | Some sessionCacheData \<Rightarrow>
             (let k = getSessionCacheKeyForUserID env (userID (user sessionCacheData));
                  w2 = call (E_localStorage_getItem k) w1
              in if localStorage w2 k = None
                 then
                   (let w3 = call (E_writeSessionCacheData sessionCacheData key) w2
                    in case writeSessionCacheData env sessionCacheData key (localStorage w3) of
                         None \<Rightarrow> (Some (user sessionCacheData), w3)
                       | Some written \<Rightarrow>
                           (Some (user sessionCacheData),
                            store (removeItem (storageKey_SESSION_CACHE env))
                              (call (E_localStorage_removeItem (storageKey_SESSION_CACHE env))
                                (store (\<lambda>s. written) w3))))
                 else (Some (user sessionCacheData), w2)))"

text \<open>
  Lines 114 to 122: the loop over the alternative keys, with \<open>decryptedUser\<close> as it stands
  so far. The write is inside the \<open>try\<close>, before the \<open>break\<close>: a key that decrypts assigns
  \<open>decryptedUser\<close>; if the write then returns the loop is left, and if it throws the
  \<open>catch\<close> takes the throw and the loop goes on with the next key.
\<close>

fun tryAlternativeKeys ::
  "('p, 'r, 's) env \<Rightarrow> string \<Rightarrow> string \<Rightarrow> string list \<Rightarrow> ('p, 'r) User option
     \<Rightarrow> ('p, 'r, 's) world \<Rightarrow> ('p, 'r) User option \<times> ('p, 'r, 's) world" where
  "tryAlternativeKeys env encryptedSessionCacheData key [] decryptedUser w = (decryptedUser, w)"
| "tryAlternativeKeys env encryptedSessionCacheData key (alternativeCacheKey # rest) decryptedUser w =
     (let w1 = call (E_decryptSessionCacheData encryptedSessionCacheData alternativeCacheKey) w
      in case decryptSessionCacheData env encryptedSessionCacheData alternativeCacheKey of
           None \<Rightarrow> tryAlternativeKeys env encryptedSessionCacheData key rest decryptedUser w1
         | Some sessionCacheData \<Rightarrow>
             (let w2 = call (E_writeSessionCacheData sessionCacheData key) w1
              in case writeSessionCacheData env sessionCacheData key (localStorage w2) of
                   None \<Rightarrow>
                     tryAlternativeKeys env encryptedSessionCacheData key rest
                       (Some (user sessionCacheData)) w2
                 | Some written \<Rightarrow>
                     (Some (user sessionCacheData), store (\<lambda>s. written) w2)))"

text \<open>Lines 132 to 147: the server's fields written into the decrypted user.\<close>

definition refreshUserData :: "'p refreshedUser option \<Rightarrow> ('p, 'r) User \<Rightarrow> ('p, 'r) User" where
  "refreshUserData userDataToRefresh decryptedUser =
     (case userDataToRefresh of
        None \<Rightarrow> decryptedUser
      | Some r \<Rightarrow>
          (let u1 = (if refreshedUser.recoveryEmail r \<noteq> Undefined
                     then decryptedUser\<lparr>recoveryEmail := refreshedUser.recoveryEmail r\<rparr>
                     else decryptedUser);
               u2 = (if refreshedUser.unverifiedRecoveryEmail r \<noteq> Undefined
                     then u1\<lparr>unverifiedRecoveryEmail := refreshedUser.unverifiedRecoveryEmail r\<rparr>
                     else u1);
               u3 = (if truthy (refreshedUser.walletAddress r)
                     then u2\<lparr>walletAddress := refreshedUser.walletAddress r\<rparr>
                     else u2);
               u4 = (if truthy (refreshedUser.rootOrgID r)
                     then u3\<lparr>rootOrgID := refreshedUser.rootOrgID r\<rparr>
                     else u3)
           in u4\<lparr>publicData := refreshedUser.publicData r\<rparr>))"

definition sessionCacheIsInvalid :: "queryError \<Rightarrow> bool" where
  \<comment> \<open>the condition of lines 80 to 85\<close>
  "sessionCacheIsInvalid e =
     (case e of
        ApolloError graphQLErrors \<Rightarrow>
          isApolloLogicErrorType (first_graphQLError graphQLErrors) NotFound
          \<or> isApolloLogicErrorType (first_graphQLError graphQLErrors) BadRequest
          \<or> isApolloLogicErrorType (first_graphQLError graphQLErrors) NotAuthorized
      | NonApolloError \<Rightarrow> False)"

text \<open>
  Lines 97 to 123: the primary key first, and the alternative keys while \<open>decryptedUser\<close> is
  still \<open>null\<close>.
\<close>

definition decryptWithFallback ::
  "('p, 'r, 's) env \<Rightarrow> string \<Rightarrow> string \<Rightarrow> string list \<Rightarrow> ('p, 'r, 's) world
     \<Rightarrow> ('p, 'r) User option \<times> ('p, 'r, 's) world" where
  "decryptWithFallback env encryptedSessionCacheData key alternatives w =
     (case tryPrimaryKey env encryptedSessionCacheData key w of
        (None, w3) \<Rightarrow> tryAlternativeKeys env encryptedSessionCacheData key alternatives None w3
      | (Some u, w3) \<Rightarrow> (Some u, w3))"

text \<open>
  \<open>tryCachedLogin\<close> itself. The \<open>void setDefaultEmailAlias()\<close> of line 156 starts an
  asynchronous function whose result is not awaited: the call is an event of the trace.
\<close>

definition tryCachedLogin :: "('p, 'r, 's) env \<Rightarrow> ('p, 'r, 's) world \<Rightarrow> bool \<times> ('p, 'r, 's) world" where
  "tryCachedLogin env w =
     (if window_location env \<noteq> window_parent_location env then (False, w)
      else
        let w1 = call E_getSessionCacheForLatestUser w
        in case getSessionCacheForLatestUser env (localStorage w1) of
             None \<Rightarrow> (False, w1)
           | Some encryptedSessionCacheData \<Rightarrow>
               if encryptedSessionCacheData = '''' then (False, w1)
               else
                 let w2 = call E_client_query w1
                 in case client_query env of
                      Inl e \<Rightarrow>
                        if sessionCacheIsInvalid e
                        then (False, setNextIDAndReload env (call E_console_log w2))
                        else (False, call E_console_error w2)
                    | Inr res \<Rightarrow>
                        (case decryptWithFallback env encryptedSessionCacheData
                                (cacheKey (sessionCache res))
                                (alternativeCacheKeys (sessionCache res)) w2 of
                           (None, w4) \<Rightarrow> (False, setNextIDAndReload env w4)
                         | (Some decryptedUser, w4) \<Rightarrow>
                             (let u = refreshUserData (currentUser res) decryptedUser;
                                  w5 = store (saveCurrentUserData env u)
                                         (call (E_saveCurrentUserData u) w4);
                                  w6 = (if isMobileApp env
                                        then call (E_sendUserDataToMobileApp u) w5 else w5)
                              in (True, call E_setDefaultEmailAlias w6))))"

subsection \<open>Vocabulary of the properties\<close>

text \<open>The calls that one run of \<open>tryCachedLogin\<close> adds to the trace.\<close>

definition emitted :: "('p, 'r, 's) env \<Rightarrow> ('p, 'r, 's) world \<Rightarrow> ('p, 'r, 's) event list" where
  "emitted env w = drop (length (trace w)) (trace (snd (tryCachedLogin env w)))"

text \<open>The decryption attempts of a trace, in order: the blob and the key of each.\<close>

fun decryptionAttempt :: "('p, 'r, 's) event \<Rightarrow> (string \<times> string) option" where
  "decryptionAttempt (E_decryptSessionCacheData b k) = Some (b, k)"
| "decryptionAttempt _ = None"

definition decryptionAttempts :: "('p, 'r, 's) event list \<Rightarrow> (string \<times> string) list" where
  "decryptionAttempts evs = List.map_filter decryptionAttempt evs"

text \<open>
  An alternative key ends the iteration when it decrypts the blob and the write of what it
  decrypted, with the primary key, returns. The alternative keys that are tried are the
  keys before the first one that ends the iteration, in the order given, and that key
  itself.
\<close>

definition endsIteration ::
  "('p, 'r, 's) env \<Rightarrow> string \<Rightarrow> string \<Rightarrow> (string \<rightharpoonup> string) \<Rightarrow> string \<Rightarrow> bool" where
  "endsIteration env b key s k =
     (case decryptSessionCacheData env b k of
        None \<Rightarrow> False
      | Some d \<Rightarrow> \<not> writeSessionCacheData_throws env d key s)"

definition keysTried :: "(string \<Rightarrow> bool) \<Rightarrow> string list \<Rightarrow> string list" where
  "keysTried ends ks =
     takeWhile (\<lambda>k. \<not> ends k) ks @ take 1 (dropWhile (\<lambda>k. \<not> ends k) ks)"

text \<open>What the keys of a list decrypt, in order (the keys that fail give nothing).\<close>

definition decryptedBy ::
  "('p, 'r, 's) env \<Rightarrow> string \<Rightarrow> string list \<Rightarrow> ('p, 'r, 's) SessionCacheData list" where
  "decryptedBy env b ks = List.map_filter (decryptSessionCacheData env b) ks"

text \<open>
  What the decryption with its fallback finds, which calls it makes and which storage it
  leaves, as functions of the server's keys and of the storage it starts from.
\<close>

definition found ::
  "('p, 'r, 's) env \<Rightarrow> string \<Rightarrow> string \<Rightarrow> string list \<Rightarrow> (string \<rightharpoonup> string)
     \<Rightarrow> ('p, 'r, 's) SessionCacheData option" where
  "found env b key alts s =
     (case decryptSessionCacheData env b key of
        Some d \<Rightarrow> Some d
      | None \<Rightarrow>
          (let ds = decryptedBy env b (keysTried (endsIteration env b key s) alts)
           in if ds = [] then None else Some (last ds)))"

definition alternativeEvents ::
  "('p, 'r, 's) env \<Rightarrow> string \<Rightarrow> string \<Rightarrow> string list \<Rightarrow> ('p, 'r, 's) event list" where
  "alternativeEvents env b key ks =
     concat (map (\<lambda>k. E_decryptSessionCacheData b k
                       # (case decryptSessionCacheData env b k of
                            None \<Rightarrow> []
                          | Some d \<Rightarrow> [E_writeSessionCacheData d key])) ks)"

definition decryptionEvents ::
  "('p, 'r, 's) env \<Rightarrow> string \<Rightarrow> string \<Rightarrow> string list \<Rightarrow> (string \<rightharpoonup> string)
     \<Rightarrow> ('p, 'r, 's) event list" where
  "decryptionEvents env b key alts s =
     (case decryptSessionCacheData env b key of
        Some d \<Rightarrow>
          [E_decryptSessionCacheData b key,
           E_localStorage_getItem (getSessionCacheKeyForUserID env (userID (user d)))]
          @ (if s (getSessionCacheKeyForUserID env (userID (user d))) = None
             then E_writeSessionCacheData d key
                  # (if writeSessionCacheData_throws env d key s then []
                     else [E_localStorage_removeItem (storageKey_SESSION_CACHE env)])
             else [])
      | None \<Rightarrow>
          E_decryptSessionCacheData b key
          # alternativeEvents env b key (keysTried (endsIteration env b key s) alts))"

definition stored ::
  "('p, 'r, 's) env \<Rightarrow> ('p, 'r, 's) SessionCacheData \<Rightarrow> string \<Rightarrow> (string \<rightharpoonup> string)
     \<Rightarrow> (string \<rightharpoonup> string)" where
  "stored env d key s =
     s(getSessionCacheKeyForUserID env (userID (user d)) \<mapsto> encryptSessionCacheData env d key)"

definition migratedStorage ::
  "('p, 'r, 's) env \<Rightarrow> string \<Rightarrow> string \<Rightarrow> string list \<Rightarrow> (string \<rightharpoonup> string)
     \<Rightarrow> (string \<rightharpoonup> string)" where
  "migratedStorage env b key alts s =
     (case decryptSessionCacheData env b key of
        Some d \<Rightarrow>
          if s (getSessionCacheKeyForUserID env (userID (user d))) = None
             \<and> \<not> writeSessionCacheData_throws env d key s
          then removeItem (storageKey_SESSION_CACHE env) (stored env d key s)
          else s
      | None \<Rightarrow>
          (case List.find (endsIteration env b key s) alts of
             None \<Rightarrow> s
           | Some k \<Rightarrow>
               (case decryptSessionCacheData env b k of
                  None \<Rightarrow> s
                | Some d \<Rightarrow> stored env d key s)))"

definition recoveryEvents :: "('p, 'r, 's) env \<Rightarrow> (string \<rightharpoonup> string) \<Rightarrow> ('p, 'r, 's) event list" where
  "recoveryEvents env s =
     [E_clearLatestUserIDCache, E_setNextUUID]
     @ (if fst (setNextUUID env (clearLatestUserIDCache env s))
        then [E_window_location_reload] else [])"

text \<open>
  The four steps of the flow: 1 the cache read, 2 the server query, 3 the decryption with
  its fallback and storage migration, 4 the write of the local user data. The calls of the
  error handling and of the remedial actions belong to no step.
\<close>

fun step :: "('p, 'r, 's) event \<Rightarrow> nat option" where
  "step E_getSessionCacheForLatestUser = Some 1"
| "step E_client_query = Some 2"
| "step (E_decryptSessionCacheData _ _) = Some 3"
| "step (E_localStorage_getItem _) = Some 3"
| "step (E_writeSessionCacheData _ _) = Some 3"
| "step (E_localStorage_removeItem _) = Some 3"
| "step (E_saveCurrentUserData _) = Some 4"
| "step _ = None"

definition steps :: "('p, 'r, 's) event list \<Rightarrow> nat list" where
  "steps evs = List.map_filter step evs"

fun remedial :: "('p, 'r, 's) event \<Rightarrow> bool" where
  "remedial (E_sendUserDataToMobileApp _) = True"
| "remedial E_setDefaultEmailAlias = True"
| "remedial _ = False"

fun persists :: "('p, 'r, 's) event \<Rightarrow> bool" where
  "persists (E_saveCurrentUserData _) = True"
| "persists _ = False"

fun migrates :: "('p, 'r, 's) event \<Rightarrow> bool" where
  "migrates (E_writeSessionCacheData _ _) = True"
| "migrates (E_localStorage_removeItem _) = True"
| "migrates _ = False"

subsection \<open>Concrete address tests\<close>

definition ex_tests :: "string addressTests" where
  "ex_tests =
     \<lparr>Bech32Address_validate =
        (\<lambda>s hrp. if s = ''both'' \<or> s = ''all'' then Inr () else Inl ''checksum''),
      isEthereumAddress = (\<lambda>s. s = ''all''), isENSName = (\<lambda>s. False),
      isJunoAddress = (\<lambda>s. False), isICNSName = (\<lambda>s. False),
      isSolanaAddress = (\<lambda>s. s = ''sol'' \<or> s = ''both'' \<or> s = ''all'')\<rparr>"

subsection \<open>A concrete browser\<close>

text \<open>
  One user cached under the old storage key, a server that answers with the primary key
  \<open>k1\<close> and three alternatives, and a blob that the keys \<open>k3\<close> and \<open>k4\<close> decrypt.
  The variants below change one collaborator each.
\<close>

definition ex_user :: "(string, unit) User" where
  "ex_user =
     \<lparr>userID = ''u1'', recoveryEmail = Str ''old@skiff.com'',
      unverifiedRecoveryEmail = Str ''pending@skiff.com'',
      walletAddress = Str ''0xabc'', rootOrgID = Str ''org1'', publicData = ''cached'',
      otherFields = ()\<rparr>"

definition ex_data :: "(string, unit, unit) SessionCacheData" where
  "ex_data = \<lparr>user = ex_user, otherData = ()\<rparr>"

definition ex_refreshed :: "string refreshedUser" where
  "ex_refreshed =
     \<lparr>refreshedUser.recoveryEmail = Null, refreshedUser.unverifiedRecoveryEmail = Undefined,
      refreshedUser.walletAddress = Str '''', refreshedUser.rootOrgID = Str ''org2'',
      refreshedUser.publicData = ''fresh''\<rparr>"

definition ex_response :: "string GetSessionCacheQuery" where
  "ex_response =
     \<lparr>sessionCache = \<lparr>cacheKey = ''k1'', alternativeCacheKeys = [''k2'', ''k3'', ''k4'']\<rparr>,
      currentUser = Some ex_refreshed\<rparr>"

definition ex_env :: "(string, unit, unit) env" where
  "ex_env =
     \<lparr>window_location = 0, window_parent_location = 0,
      getSessionCacheForLatestUser = (\<lambda>s. s ''skiff:sessionCache''),
      client_query = Inr ex_response,
      decryptSessionCacheData =
        (\<lambda>b k. if b = ''blob'' \<and> (k = ''k3'' \<or> k = ''k4'') then Some ex_data else None),
      getSessionCacheKeyForUserID = (\<lambda>u. ''skiff:sessionCache:'' @ u),
      storageKey_SESSION_CACHE = ''skiff:sessionCache'',
      encryptSessionCacheData = (\<lambda>d k. ''blob-'' @ k),
      writeSessionCacheData_throws = (\<lambda>d k s. False),
      clearLatestUserIDCache = (\<lambda>s. s(''skiff:latestUserID'' := None)),
      setNextUUID = (\<lambda>s. (True, s(''skiff:latestUserID'' \<mapsto> ''u2''))),
      saveCurrentUserData = (\<lambda>u s. s),
      isMobileApp = True\<rparr>"

definition ex_env_primary :: "(string, unit, unit) env" where
  "ex_env_primary =
     ex_env\<lparr>decryptSessionCacheData :=
       (\<lambda>b k. if b = ''blob'' \<and> k = ''k1'' then Some ex_data else None)\<rparr>"

definition ex_env_full :: "(string, unit, unit) env" where
  \<comment> \<open>the storage is full: every write throws\<close>
  "ex_env_full = ex_env\<lparr>writeSessionCacheData_throws := (\<lambda>d k s. True)\<rparr>"

definition ex_env_primary_full :: "(string, unit, unit) env" where
  "ex_env_primary_full = ex_env_primary\<lparr>writeSessionCacheData_throws := (\<lambda>d k s. True)\<rparr>"

definition ex_env_no_key :: "(string, unit, unit) env" where
  "ex_env_no_key = ex_env\<lparr>decryptSessionCacheData := (\<lambda>b k. None)\<rparr>"

definition ex_env_frame :: "(string, unit, unit) env" where
  "ex_env_frame = ex_env\<lparr>window_parent_location := 1\<rparr>"

definition ex_env_offline :: "(string, unit, unit) env" where
  "ex_env_offline = ex_env\<lparr>client_query := Inl NonApolloError\<rparr>"

definition ex_env_unauthorized :: "(string, unit, unit) env" where
  "ex_env_unauthorized = ex_env\<lparr>client_query := Inl (ApolloError [NotAuthorized])\<rparr>"

definition ex_env_no_current_user :: "(string, unit, unit) env" where
  "ex_env_no_current_user =
     ex_env_primary\<lparr>client_query := Inr (ex_response\<lparr>currentUser := None\<rparr>)\<rparr>"

definition ex_world :: "(string, unit, unit) world" where
  "ex_world = \<lparr>localStorage = [''skiff:sessionCache'' \<mapsto> ''blob''], trace = []\<rparr>"

definition ex_world_empty :: "(string, unit, unit) world" where
  "ex_world_empty = \<lparr>localStorage = Map.empty, trace = []\<rparr>"

section \<open>Properties of the wallet address helpers\<close>

lemma js_slice_prefix: "0 \<le> n \<Longrightarrow> js_slice s 0 (Some n) = take (nat n) s"
  by (simp add: js_slice_def Let_def min_def)

lemma js_slice_suffix: "0 < n \<Longrightarrow> js_slice s (- n) None = drop (length s - nat n) s"
proof -
  assume n: "0 < n"
  have "nat (max (int (length s) - n) 0) = length s - nat n"
    using n by (simp add: max_def) linarith
  then show ?thesis
    using n by (simp add: js_slice_def Let_def)
qed

text \<open>
  C9. \<open>abbreviateWalletAddress\<close> is the empty string for an undefined or empty address;
  with the default parameters a non-empty address gives its first five characters,
  three dots and its last four characters; and \<open>createAbbreviatedWalletEmail w d\<close> is
  that abbreviation, an at sign and the domain.
\<close>

theorem abbreviateWalletAddress_spec:
  "abbreviateWalletAddress None s e = ''''
   \<and> abbreviateWalletAddress (Some '''') s e = ''''
   \<and> (w \<noteq> '''' \<longrightarrow>
        abbreviateWalletAddress (Some w) None None
          = take 5 w @ ''...'' @ drop (length w - 4) w)
   \<and> createAbbreviatedWalletEmail w d
        = abbreviateWalletAddress (Some w) None None @ ''@'' @ d"
  by (simp add: abbreviateWalletAddress_def createAbbreviatedWalletEmail_def
      createEmail_def js_slice_prefix js_slice_suffix)

theorem abbreviateWalletAddress_spec_witness:
  "abbreviateWalletAddress (Some ''0xdDD1234567890ab3D'') None None = ''0xdDD...ab3D''
   \<and> createAbbreviatedWalletEmail ''0xdDD1234567890ab3D'' ''skiff.com''
        = ''0xdDD...ab3D@skiff.com''"
  using abbreviateWalletAddress_spec [of undefined undefined "''0xdDD1234567890ab3D''" "''skiff.com''"]
  by simp

text \<open>
  C10. \<open>isCosmosHubAddress\<close> never throws: on every input it returns a boolean, which is
  false for an undefined or empty input and whenever the bech32 validation with the
  prefix \<open>cosmos\<close> throws. \<open>getWalletIcon\<close> returns \<open>undefined\<close> for an undefined or
  empty alias; otherwise an alias passing an Ethereum test gets the Ethereum icon whatever
  else it matches, and an alias passing no Ethereum test but a Cosmos test gets the Atom
  icon whether or not it is a Solana address.
\<close>

theorem isCosmosHubAddress_total_getWalletIcon_priority:
  "(\<exists>b. isCosmosHubAddress validate emailAlias = Inr b)
   \<and> isCosmosHubAddress validate None = Inr False
   \<and> isCosmosHubAddress validate (Some '''') = Inr False
   \<and> (validate a ''cosmos'' = Inl e \<longrightarrow> isCosmosHubAddress validate (Some a) = Inr False)
   \<and> getWalletIcon t None = Inr None
   \<and> getWalletIcon t (Some '''') = Inr None
   \<and> (a \<noteq> '''' \<and> (isEthereumAddress t a \<or> isENSName t a) \<longrightarrow>
        getWalletIcon t (Some a) = Inr (Some Ethereum))
   \<and> (a \<noteq> '''' \<and> \<not> (isEthereumAddress t a \<or> isENSName t a)
        \<and> (isCosmosHubAddress (Bech32Address_validate t) (Some a) = Inr True
             \<or> isJunoAddress t a \<or> isICNSName t a) \<longrightarrow>
        getWalletIcon t (Some a) = Inr (Some Atom))
   \<and> (a \<noteq> '''' \<and> \<not> (isEthereumAddress t a \<or> isENSName t a)
        \<and> \<not> (isCosmosHubAddress (Bech32Address_validate t) (Some a) = Inr True
               \<or> isJunoAddress t a \<or> isICNSName t a) \<longrightarrow>
        getWalletIcon t (Some a) = Inr (if isSolanaAddress t a then Some Solana else None))"
proof -
  have total: "\<exists>b. isCosmosHubAddress v x = Inr b" for v :: "string \<Rightarrow> string \<Rightarrow> 'c + unit" and x
    by (auto simp add: isCosmosHubAddress_def split: option.split sum.split)
  have falsy: "isCosmosHubAddress validate None = Inr False"
    "isCosmosHubAddress validate (Some '''') = Inr False"
    by (simp_all add: isCosmosHubAddress_def)
  have fails: "validate a ''cosmos'' = Inl e \<longrightarrow> isCosmosHubAddress validate (Some a) = Inr False"
    by (simp add: isCosmosHubAddress_def)
  have none: "getWalletIcon t None = Inr None" "getWalletIcon t (Some '''') = Inr None"
    by (simp_all add: getWalletIcon_def)
  have eth: "a \<noteq> '''' \<and> (isEthereumAddress t a \<or> isENSName t a) \<longrightarrow>
      getWalletIcon t (Some a) = Inr (Some Ethereum)"
    by (simp add: getWalletIcon_def)
  obtain c where c: "isCosmosHubAddress (Bech32Address_validate t) (Some a) = Inr c"
    using total by blast
  have atom: "a \<noteq> '''' \<and> \<not> (isEthereumAddress t a \<or> isENSName t a)
        \<and> (isCosmosHubAddress (Bech32Address_validate t) (Some a) = Inr True
             \<or> isJunoAddress t a \<or> isICNSName t a) \<longrightarrow>
        getWalletIcon t (Some a) = Inr (Some Atom)"
    using c by (auto simp add: getWalletIcon_def)
  have sol: "a \<noteq> '''' \<and> \<not> (isEthereumAddress t a \<or> isENSName t a)
        \<and> \<not> (isCosmosHubAddress (Bech32Address_validate t) (Some a) = Inr True
               \<or> isJunoAddress t a \<or> isICNSName t a) \<longrightarrow>
        getWalletIcon t (Some a) = Inr (if isSolanaAddress t a then Some Solana else None)"
    using c by (auto simp add: getWalletIcon_def)
  from total falsy fails none eth atom sol show ?thesis by blast
qed

text \<open>
  An alias that every test accepts gets the Ethereum icon; one that only the Cosmos and
  Solana tests accept gets the Atom icon; one that only the Solana test accepts gets the
  Solana icon; and a validation that throws gives \<open>false\<close>.
\<close>

theorem isCosmosHubAddress_total_getWalletIcon_priority_witness:
  "getWalletIcon ex_tests (Some ''all'') = Inr (Some Ethereum)
   \<and> getWalletIcon ex_tests (Some ''both'') = Inr (Some Atom)
   \<and> getWalletIcon ex_tests (Some ''sol'') = Inr (Some Solana)
   \<and> isCosmosHubAddress (\<lambda>s hrp. Inl ''checksum'') (Some ''all'') = Inr False"
  using isCosmosHubAddress_total_getWalletIcon_priority
    [of "\<lambda>s hrp. Inl ''checksum''" undefined "''all''" "''checksum''" ex_tests]
    isCosmosHubAddress_total_getWalletIcon_priority
    [of "\<lambda>s hrp. Inl ''checksum''" undefined "''both''" "''checksum''" ex_tests]
    isCosmosHubAddress_total_getWalletIcon_priority
    [of "\<lambda>s hrp. Inl ''checksum''" undefined "''sol''" "''checksum''" ex_tests]
  by (simp add: isCosmosHubAddress_def ex_tests_def)

section \<open>Properties of the cached login\<close>

lemmas ex_defs =
  ex_env_def ex_env_primary_def ex_env_no_key_def ex_env_frame_def ex_env_offline_def
  ex_env_unauthorized_def ex_env_no_current_user_def ex_env_full_def ex_env_primary_full_def
  ex_world_def ex_world_empty_def ex_response_def ex_data_def ex_user_def ex_refreshed_def

lemmas eval_defs =
  found_def keysTried_def endsIteration_def decryptedBy_def List.map_filter_simps
  decryptionEvents_def alternativeEvents_def migratedStorage_def stored_def removeItem_def

lemma trace_call [simp]: "trace (call e w) = trace w @ [e]"
  by (simp add: call_def)

lemma localStorage_call [simp]: "localStorage (call e w) = localStorage w"
  by (simp add: call_def)

lemma trace_store [simp]: "trace (store f w) = trace w"
  by (simp add: store_def)

lemma localStorage_store [simp]: "localStorage (store f w) = f (localStorage w)"
  by (simp add: store_def)

lemma trace_setNextIDAndReload:
  "trace (setNextIDAndReload env w) = trace w @ recoveryEvents env (localStorage w)"
  by (simp add: setNextIDAndReload_def Let_def recoveryEvents_def)

lemma localStorage_setNextIDAndReload:
  "localStorage (setNextIDAndReload env w) =
     snd (setNextUUID env (clearLatestUserIDCache env (localStorage w)))"
  by (simp add: setNextIDAndReload_def Let_def)

lemma keysTried_Nil [simp]: "keysTried ends [] = []"
  by (simp add: keysTried_def)

lemma keysTried_Cons:
  "keysTried ends (k # ks) = (if ends k then [k] else k # keysTried ends ks)"
  by (simp add: keysTried_def)

lemma decryptedBy_Nil [simp]: "decryptedBy env b [] = []"
  by (simp add: decryptedBy_def List.map_filter_simps)

lemma decryptedBy_Cons:
  "decryptedBy env b (k # ks) =
     (case decryptSessionCacheData env b k of
        None \<Rightarrow> decryptedBy env b ks
      | Some d \<Rightarrow> d # decryptedBy env b ks)"
  by (cases "decryptSessionCacheData env b k") (simp_all add: decryptedBy_def List.map_filter_simps)

lemma alternativeEvents_Nil [simp]: "alternativeEvents env b key [] = []"
  by (simp add: alternativeEvents_def)

lemma alternativeEvents_Cons:
  "alternativeEvents env b key (k # ks) =
     E_decryptSessionCacheData b k
     # (case decryptSessionCacheData env b k of
          None \<Rightarrow> []
        | Some d \<Rightarrow> [E_writeSessionCacheData d key])
     @ alternativeEvents env b key ks"
  by (simp add: alternativeEvents_def)

lemmas loop_simps =
  keysTried_Cons decryptedBy_Cons alternativeEvents_Cons endsIteration_def
  writeSessionCacheData_def stored_def Let_def

lemma fst_tryAlternativeKeys:
  "fst (tryAlternativeKeys env b key ks acc w) =
     (if decryptedBy env b (keysTried (endsIteration env b key (localStorage w)) ks) = []
      then acc
      else Some (user (last (decryptedBy env b
                               (keysTried (endsIteration env b key (localStorage w)) ks)))))"
  by (induction ks arbitrary: acc w) (auto simp add: loop_simps split: option.split)

lemma trace_tryAlternativeKeys:
  "trace (snd (tryAlternativeKeys env b key ks acc w)) =
     trace w @ alternativeEvents env b key (keysTried (endsIteration env b key (localStorage w)) ks)"
  by (induction ks arbitrary: acc w) (auto simp add: loop_simps split: option.split)

lemma localStorage_tryAlternativeKeys:
  "localStorage (snd (tryAlternativeKeys env b key ks acc w)) =
     (case List.find (endsIteration env b key (localStorage w)) ks of
        None \<Rightarrow> localStorage w
      | Some k \<Rightarrow>
          (case decryptSessionCacheData env b k of
             None \<Rightarrow> localStorage w
           | Some d \<Rightarrow> stored env d key (localStorage w)))"
  by (induction ks arbitrary: acc w) (auto simp add: loop_simps split: option.split)

lemma writeSessionCacheData_stored:
  "writeSessionCacheData env d key s =
     (if writeSessionCacheData_throws env d key s then None else Some (stored env d key s))"
  by (simp add: writeSessionCacheData_def stored_def)

lemma fst_decryptWithFallback:
  "fst (decryptWithFallback env b key alts w)
     = map_option user (found env b key alts (localStorage w))"
  by (simp add: decryptWithFallback_def tryPrimaryKey_def Let_def found_def fst_tryAlternativeKeys
      split: option.split)

lemma trace_decryptWithFallback:
  "trace (snd (decryptWithFallback env b key alts w))
     = trace w @ decryptionEvents env b key alts (localStorage w)"
  by (simp add: decryptWithFallback_def tryPrimaryKey_def Let_def trace_tryAlternativeKeys
      decryptionEvents_def writeSessionCacheData_def split: option.split)

lemma localStorage_decryptWithFallback:
  "localStorage (snd (decryptWithFallback env b key alts w))
     = migratedStorage env b key alts (localStorage w)"
  by (simp add: decryptWithFallback_def tryPrimaryKey_def Let_def localStorage_tryAlternativeKeys
      migratedStorage_def writeSessionCacheData_stored split: option.split)

lemmas decryptWithFallback_simps =
  fst_decryptWithFallback trace_decryptWithFallback localStorage_decryptWithFallback
  trace_setNextIDAndReload localStorage_setNextIDAndReload

lemma fst_tryCachedLogin:
  "fst (tryCachedLogin env w) =
     (window_location env = window_parent_location env \<and>
      (case getSessionCacheForLatestUser env (localStorage w) of
         None \<Rightarrow> False
       | Some b \<Rightarrow> b \<noteq> '''' \<and>
           (case client_query env of
              Inl e \<Rightarrow> False
            | Inr res \<Rightarrow> found env b (cacheKey (sessionCache res))
                          (alternativeCacheKeys (sessionCache res)) (localStorage w) \<noteq> None)))"
  by (simp add: tryCachedLogin_def Let_def split_beta decryptWithFallback_simps
      split: option.split sum.split)

lemma emitted_eq:
  "emitted env w =
     (if window_location env \<noteq> window_parent_location env then []
      else E_getSessionCacheForLatestUser #
        (case getSessionCacheForLatestUser env (localStorage w) of
           None \<Rightarrow> []
         | Some b \<Rightarrow>
             if b = '''' then []
             else E_client_query #
               (case client_query env of
                  Inl e \<Rightarrow>
                    if sessionCacheIsInvalid e
                    then E_console_log # recoveryEvents env (localStorage w)
                    else [E_console_error]
                | Inr res \<Rightarrow>
                    decryptionEvents env b (cacheKey (sessionCache res))
                      (alternativeCacheKeys (sessionCache res)) (localStorage w)
                    @ (case found env b (cacheKey (sessionCache res))
                              (alternativeCacheKeys (sessionCache res)) (localStorage w) of
                         None \<Rightarrow>
                           recoveryEvents env
                             (migratedStorage env b (cacheKey (sessionCache res))
                                (alternativeCacheKeys (sessionCache res)) (localStorage w))
                       | Some d \<Rightarrow>
                           E_saveCurrentUserData (refreshUserData (currentUser res) (user d))
                           # (if isMobileApp env
                              then [E_sendUserDataToMobileApp
                                      (refreshUserData (currentUser res) (user d))]
                              else [])
                           @ [E_setDefaultEmailAlias]))))"
  by (simp add: emitted_def tryCachedLogin_def Let_def split_beta decryptWithFallback_simps
      split: option.split sum.split)

lemma localStorage_tryCachedLogin:
  "localStorage (snd (tryCachedLogin env w)) =
     (if window_location env \<noteq> window_parent_location env then localStorage w
      else
        (case getSessionCacheForLatestUser env (localStorage w) of
           None \<Rightarrow> localStorage w
         | Some b \<Rightarrow>
             if b = '''' then localStorage w
             else
               (case client_query env of
                  Inl e \<Rightarrow>
                    if sessionCacheIsInvalid e
                    then snd (setNextUUID env (clearLatestUserIDCache env (localStorage w)))
                    else localStorage w
                | Inr res \<Rightarrow>
                    (case found env b (cacheKey (sessionCache res))
                              (alternativeCacheKeys (sessionCache res)) (localStorage w) of
                         None \<Rightarrow>
                           snd (setNextUUID env (clearLatestUserIDCache env
                             (migratedStorage env b (cacheKey (sessionCache res))
                                (alternativeCacheKeys (sessionCache res)) (localStorage w))))
                       | Some d \<Rightarrow>
                           saveCurrentUserData env (refreshUserData (currentUser res) (user d))
                             (migratedStorage env b (cacheKey (sessionCache res))
                                (alternativeCacheKeys (sessionCache res)) (localStorage w))))))"
  by (simp add: tryCachedLogin_def Let_def split_beta decryptWithFallback_simps
      split: option.split sum.split)

lemma trace_tryCachedLogin: "trace (snd (tryCachedLogin env w)) = trace w @ emitted env w"
  by (simp add: emitted_def tryCachedLogin_def Let_def split_beta decryptWithFallback_simps
      split: option.split sum.split)

lemma map_filter_append: "List.map_filter f (xs @ ys) = List.map_filter f xs @ List.map_filter f ys"
  by (simp add: List.map_filter_def)

lemma decryptionAttempts_append [simp]:
  "decryptionAttempts (xs @ ys) = decryptionAttempts xs @ decryptionAttempts ys"
  by (simp add: decryptionAttempts_def map_filter_append)

lemma decryptionAttempts_Nil [simp]: "decryptionAttempts [] = []"
  by (simp add: decryptionAttempts_def List.map_filter_simps)

lemma decryptionAttempts_Cons [simp]:
  "decryptionAttempts (e # evs) =
     (case decryptionAttempt e of None \<Rightarrow> decryptionAttempts evs
      | Some a \<Rightarrow> a # decryptionAttempts evs)"
  by (cases "decryptionAttempt e") (simp_all add: decryptionAttempts_def List.map_filter_simps)

lemma decryptionAttempts_alternativeEvents [simp]:
  "decryptionAttempts (alternativeEvents env b key ks) = map (Pair b) ks"
  by (induction ks) (simp_all add: alternativeEvents_Cons split: option.split)

lemma decryptionAttempts_recoveryEvents [simp]: "decryptionAttempts (recoveryEvents env s) = []"
  by (simp add: recoveryEvents_def)

lemma decryptionAttempts_decryptionEvents:
  "decryptionAttempts (decryptionEvents env b key alts s) =
     (b, key) # (if decryptSessionCacheData env b key \<noteq> None then []
                 else map (Pair b) (keysTried (endsIteration env b key s) alts))"
  by (auto simp add: decryptionEvents_def split: option.split)

lemma keysTried_no_throw:
  assumes "\<forall>k \<in> set ks. \<forall>d. decryptSessionCacheData env b k = Some d \<longrightarrow>
             \<not> writeSessionCacheData_throws env d key s"
  shows "keysTried (endsIteration env b key s) ks =
           takeWhile (\<lambda>k. decryptSessionCacheData env b k = None) ks
           @ take 1 (dropWhile (\<lambda>k. decryptSessionCacheData env b k = None) ks)"
proof -
  have "\<forall>k \<in> set ks. (\<not> endsIteration env b key s k) = (decryptSessionCacheData env b k = None)"
    using assms by (auto simp add: endsIteration_def split: option.split)
  then have "takeWhile (\<lambda>k. \<not> endsIteration env b key s k) ks
               = takeWhile (\<lambda>k. decryptSessionCacheData env b k = None) ks"
    and "dropWhile (\<lambda>k. \<not> endsIteration env b key s k) ks
               = dropWhile (\<lambda>k. decryptSessionCacheData env b k = None) ks"
    by (auto intro: takeWhile_cong dropWhile_cong)
  then show ?thesis by (simp add: keysTried_def)
qed

text \<open>
  C1, as amended. When the server query succeeds, the decryption attempts of the run are, in
  order: the cached blob with the primary \<open>cacheKey\<close>; and, only if that attempt fails, the
  cached blob with the alternative keys in the order the server returned them, up to and
  including the first key that decrypts and whose write of the decrypted data returns. A
  key that decrypts but whose write throws does not end the iteration. Where no write
  throws, the iteration ends at the first key that decrypts.
\<close>

theorem tryCachedLogin_decryption_order:
  assumes "window_location env = window_parent_location env"
    and "getSessionCacheForLatestUser env (localStorage w) = Some b"
    and "b \<noteq> ''''"
    and "client_query env = Inr res"
  shows "decryptionAttempts (emitted env w) =
           (b, cacheKey (sessionCache res))
           # (if decryptSessionCacheData env b (cacheKey (sessionCache res)) \<noteq> None then []
              else map (Pair b)
                     (keysTried
                        (endsIteration env b (cacheKey (sessionCache res)) (localStorage w))
                        (alternativeCacheKeys (sessionCache res))))
     \<and> ((\<forall>k \<in> set (alternativeCacheKeys (sessionCache res)).
            \<forall>d. decryptSessionCacheData env b k = Some d \<longrightarrow>
              \<not> writeSessionCacheData_throws env d (cacheKey (sessionCache res)) (localStorage w)) \<longrightarrow>
         decryptionAttempts (emitted env w) =
           (b, cacheKey (sessionCache res))
           # (if decryptSessionCacheData env b (cacheKey (sessionCache res)) \<noteq> None then []
              else map (Pair b)
                     (takeWhile (\<lambda>k. decryptSessionCacheData env b k = None)
                        (alternativeCacheKeys (sessionCache res))
                      @ take 1 (dropWhile (\<lambda>k. decryptSessionCacheData env b k = None)
                                  (alternativeCacheKeys (sessionCache res))))))"
proof -
  have general: "decryptionAttempts (emitted env w) =
           (b, cacheKey (sessionCache res))
           # (if decryptSessionCacheData env b (cacheKey (sessionCache res)) \<noteq> None then []
              else map (Pair b)
                     (keysTried
                        (endsIteration env b (cacheKey (sessionCache res)) (localStorage w))
                        (alternativeCacheKeys (sessionCache res))))"
    using assms
    by (simp add: emitted_eq decryptionAttempts_decryptionEvents split: option.split)
  show ?thesis
    using general keysTried_no_throw [of "alternativeCacheKeys (sessionCache res)" env b
        "cacheKey (sessionCache res)" "localStorage w"]
    by (simp del: One_nat_def)
qed

theorem tryCachedLogin_decryption_order_witness:
  "window_location ex_env = window_parent_location ex_env
   \<and> getSessionCacheForLatestUser ex_env (localStorage ex_world) = Some ''blob''
   \<and> client_query ex_env = Inr ex_response
   \<and> decryptionAttempts (emitted ex_env ex_world)
       = [(''blob'', ''k1''), (''blob'', ''k2''), (''blob'', ''k3'')]
   \<and> decryptionAttempts (emitted ex_env_primary ex_world) = [(''blob'', ''k1'')]"
proof -
  have h: "window_location ex_env = window_parent_location ex_env"
    "getSessionCacheForLatestUser ex_env (localStorage ex_world) = Some ''blob''"
    "''blob'' \<noteq> ''''"
    "client_query ex_env = Inr ex_response"
    by (simp_all add: ex_env_def ex_world_def)
  have p: "window_location ex_env_primary = window_parent_location ex_env_primary"
    "getSessionCacheForLatestUser ex_env_primary (localStorage ex_world) = Some ''blob''"
    "client_query ex_env_primary = Inr ex_response"
    by (simp_all add: ex_env_primary_def ex_env_def ex_world_def)
  show ?thesis
    using h tryCachedLogin_decryption_order [OF h]
      tryCachedLogin_decryption_order [OF p(1) p(2) h(3) p(3)]
    by (simp add: ex_defs keysTried_def endsIteration_def)
qed

text \<open>
  C1 as first stated lets the iteration stop at the first key that decrypts. In the run
  below the storage is full and every write throws: the key \<open>k3\<close> decrypts the blob, the
  login succeeds, and the key \<open>k4\<close> after it is tried all the same.
\<close>

theorem tryCachedLogin_decryption_order_counterexample:
  "client_query ex_env_full = Inr ex_response
   \<and> decryptSessionCacheData ex_env_full ''blob'' ''k1'' = None
   \<and> decryptSessionCacheData ex_env_full ''blob'' ''k2'' = None
   \<and> decryptSessionCacheData ex_env_full ''blob'' ''k3'' = Some ex_data
   \<and> writeSessionCacheData ex_env_full ex_data ''k1'' (localStorage ex_world) = None
   \<and> fst (tryCachedLogin ex_env_full ex_world)
   \<and> decryptionAttempts (emitted ex_env_full ex_world)
       = [(''blob'', ''k1''), (''blob'', ''k2''), (''blob'', ''k3''), (''blob'', ''k4'')]"
  by (simp add: fst_tryCachedLogin emitted_eq decryptionAttempts_decryptionEvents
      writeSessionCacheData_def eval_defs ex_defs)

text \<open>
  C8. When the page is embedded in a frame (\<open>window.location\<close> is not
  \<open>window.parent.location\<close>), \<open>tryCachedLogin\<close> returns \<open>false\<close> at once: the state is
  the one it started from, so the storage is neither read nor changed, and no call is
  made, to the server or to any collaborator.
\<close>

theorem tryCachedLogin_in_frame:
  "window_location env \<noteq> window_parent_location env \<Longrightarrow>
     tryCachedLogin env w = (False, w) \<and> emitted env w = []"
  by (simp add: tryCachedLogin_def emitted_def)

theorem tryCachedLogin_in_frame_witness:
  "window_location ex_env_frame \<noteq> window_parent_location ex_env_frame
   \<and> tryCachedLogin ex_env_frame ex_world = (False, ex_world)
   \<and> emitted ex_env_frame ex_world = []"
proof -
  have h: "window_location ex_env_frame \<noteq> window_parent_location ex_env_frame"
    by (simp add: ex_env_frame_def ex_env_def)
  show ?thesis
    using h tryCachedLogin_in_frame [OF h, of ex_world] by simp
qed

lemma sessionCacheIsInvalid_iff:
  "sessionCacheIsInvalid e \<longleftrightarrow>
     (\<exists>t es. e = ApolloError (t # es) \<and> t \<in> {NotFound, BadRequest, NotAuthorized})"
  by (auto simp add: sessionCacheIsInvalid_def isApolloLogicErrorType_def first_graphQLError_def
      split: queryError.split list.split)

text \<open>
  C3. When the session-cache query throws, \<open>tryCachedLogin\<close> returns \<open>false\<close>. If the
  error is an \<open>ApolloError\<close> whose first GraphQL error is \<open>NotFound\<close>, \<open>BadRequest\<close> or
  \<open>NotAuthorized\<close>, the run logs, clears the latest-user-ID cache, sets the next user ID
  and reloads the page exactly when one was set. For any other error the run only logs the
  error: the local storage is the one it started from, and the reader still finds the
  same blob for a later attempt.
\<close>

theorem tryCachedLogin_query_throws:
  assumes "window_location env = window_parent_location env"
    and "getSessionCacheForLatestUser env (localStorage w) = Some b"
    and "b \<noteq> ''''"
    and "client_query env = Inl e"
  shows "fst (tryCachedLogin env w) = False
     \<and> ((\<exists>t es. e = ApolloError (t # es) \<and> t \<in> {NotFound, BadRequest, NotAuthorized}) \<longrightarrow>
          emitted env w =
            [E_getSessionCacheForLatestUser, E_client_query, E_console_log,
             E_clearLatestUserIDCache, E_setNextUUID]
            @ (if fst (setNextUUID env (clearLatestUserIDCache env (localStorage w)))
               then [E_window_location_reload] else [])
          \<and> localStorage (snd (tryCachedLogin env w))
              = snd (setNextUUID env (clearLatestUserIDCache env (localStorage w))))
     \<and> (\<not> (\<exists>t es. e = ApolloError (t # es) \<and> t \<in> {NotFound, BadRequest, NotAuthorized}) \<longrightarrow>
          emitted env w = [E_getSessionCacheForLatestUser, E_client_query, E_console_error]
          \<and> localStorage (snd (tryCachedLogin env w)) = localStorage w
          \<and> getSessionCacheForLatestUser env (localStorage (snd (tryCachedLogin env w))) = Some b)"
proof -
  have inv: "(\<exists>t es. e = ApolloError (t # es) \<and> t \<in> {NotFound, BadRequest, NotAuthorized})
               = sessionCacheIsInvalid e"
    by (rule sessionCacheIsInvalid_iff [symmetric])
  show ?thesis
    unfolding inv using assms
    by (simp add: fst_tryCachedLogin emitted_eq localStorage_tryCachedLogin recoveryEvents_def)
qed

theorem tryCachedLogin_query_throws_witness:
  "client_query ex_env_offline = Inl NonApolloError
   \<and> fst (tryCachedLogin ex_env_offline ex_world) = False
   \<and> emitted ex_env_offline ex_world
       = [E_getSessionCacheForLatestUser, E_client_query, E_console_error]
   \<and> localStorage (snd (tryCachedLogin ex_env_offline ex_world)) = localStorage ex_world
   \<and> client_query ex_env_unauthorized = Inl (ApolloError [NotAuthorized])
   \<and> fst (tryCachedLogin ex_env_unauthorized ex_world) = False
   \<and> emitted ex_env_unauthorized ex_world
       = [E_getSessionCacheForLatestUser, E_client_query, E_console_log,
          E_clearLatestUserIDCache, E_setNextUUID, E_window_location_reload]"
proof -
  have o: "window_location ex_env_offline = window_parent_location ex_env_offline"
    "getSessionCacheForLatestUser ex_env_offline (localStorage ex_world) = Some ''blob''"
    "''blob'' \<noteq> ''''"
    "client_query ex_env_offline = Inl NonApolloError"
    by (simp_all add: ex_env_offline_def ex_env_def ex_world_def)
  have u: "window_location ex_env_unauthorized = window_parent_location ex_env_unauthorized"
    "getSessionCacheForLatestUser ex_env_unauthorized (localStorage ex_world) = Some ''blob''"
    "client_query ex_env_unauthorized = Inl (ApolloError [NotAuthorized])"
    by (simp_all add: ex_env_unauthorized_def ex_env_def ex_world_def)
  have r: "fst (setNextUUID ex_env_unauthorized
                 (clearLatestUserIDCache ex_env_unauthorized (localStorage ex_world)))"
    by (simp add: ex_env_unauthorized_def ex_env_def)
  show ?thesis
    using o(4) u(3) r tryCachedLogin_query_throws [OF o]
      tryCachedLogin_query_throws [OF u(1) u(2) o(3) u(3)]
    by simp
qed

lemma all_fail:
  assumes "\<forall>k \<in> set ks. decryptSessionCacheData env b k = None"
  shows "keysTried (endsIteration env b key s) ks = ks"
    and "decryptedBy env b ks = []"
    and "alternativeEvents env b key ks = map (E_decryptSessionCacheData b) ks"
    and "List.find (endsIteration env b key s) ks = None"
  using assms
  by (induction ks)
    (simp_all add: keysTried_Cons decryptedBy_Cons alternativeEvents_Cons endsIteration_def)

lemma filter_map_decrypt [simp]:
  "filter persists (map (E_decryptSessionCacheData b) ks) = []"
  "filter migrates (map (E_decryptSessionCacheData b) ks) = []"
  "filter remedial (map (E_decryptSessionCacheData b) ks) = []"
  by (induction ks) simp_all

text \<open>
  C5. When neither the primary key nor any alternative key decrypts the blob,
  \<open>tryCachedLogin\<close> tries each key once, clears the latest-user-ID cache, sets the next
  user ID, reloads the page exactly when one was set, and returns \<open>false\<close>; no user data
  is saved and no session cache data is written.
\<close>

theorem tryCachedLogin_no_key_decrypts:
  assumes "window_location env = window_parent_location env"
    and "getSessionCacheForLatestUser env (localStorage w) = Some b"
    and "b \<noteq> ''''"
    and "client_query env = Inr res"
    and "decryptSessionCacheData env b (cacheKey (sessionCache res)) = None"
    and "\<forall>k \<in> set (alternativeCacheKeys (sessionCache res)). decryptSessionCacheData env b k = None"
  shows "fst (tryCachedLogin env w) = False
     \<and> emitted env w =
         [E_getSessionCacheForLatestUser, E_client_query]
         @ map (E_decryptSessionCacheData b)
             (cacheKey (sessionCache res) # alternativeCacheKeys (sessionCache res))
         @ [E_clearLatestUserIDCache, E_setNextUUID]
         @ (if fst (setNextUUID env (clearLatestUserIDCache env (localStorage w)))
            then [E_window_location_reload] else [])
     \<and> filter persists (emitted env w) = []
     \<and> filter migrates (emitted env w) = []
     \<and> localStorage (snd (tryCachedLogin env w))
         = snd (setNextUUID env (clearLatestUserIDCache env (localStorage w)))"
  using assms
  by (simp add: fst_tryCachedLogin emitted_eq localStorage_tryCachedLogin recoveryEvents_def
      found_def decryptionEvents_def migratedStorage_def all_fail)

theorem tryCachedLogin_no_key_decrypts_witness:
  "decryptSessionCacheData ex_env_no_key ''blob'' ''k1'' = None
   \<and> map (decryptSessionCacheData ex_env_no_key ''blob'') [''k2'', ''k3'', ''k4'']
       = [None, None, None]
   \<and> fst (tryCachedLogin ex_env_no_key ex_world) = False
   \<and> emitted ex_env_no_key ex_world
       = [E_getSessionCacheForLatestUser, E_client_query,
          E_decryptSessionCacheData ''blob'' ''k1'', E_decryptSessionCacheData ''blob'' ''k2'',
          E_decryptSessionCacheData ''blob'' ''k3'', E_decryptSessionCacheData ''blob'' ''k4'',
          E_clearLatestUserIDCache, E_setNextUUID, E_window_location_reload]
   \<and> filter persists (emitted ex_env_no_key ex_world) = []"
proof -
  have h: "window_location ex_env_no_key = window_parent_location ex_env_no_key"
    "getSessionCacheForLatestUser ex_env_no_key (localStorage ex_world) = Some ''blob''"
    "''blob'' \<noteq> ''''"
    "client_query ex_env_no_key = Inr ex_response"
    "decryptSessionCacheData ex_env_no_key ''blob'' (cacheKey (sessionCache ex_response)) = None"
    "\<forall>k \<in> set (alternativeCacheKeys (sessionCache ex_response)).
        decryptSessionCacheData ex_env_no_key ''blob'' k = None"
    by (simp_all add: ex_env_no_key_def ex_env_def ex_world_def)
  have r: "fst (setNextUUID ex_env_no_key
                 (clearLatestUserIDCache ex_env_no_key (localStorage ex_world)))"
    by (simp add: ex_env_no_key_def ex_env_def)
  show ?thesis
    using h(5) h(6) r tryCachedLogin_no_key_decrypts [OF h]
    by (simp add: ex_response_def)
qed

lemma steps_Nil [simp]: "steps [] = []"
  by (simp add: steps_def List.map_filter_simps)

lemma steps_Cons [simp]:
  "steps (e # evs) = (case step e of None \<Rightarrow> steps evs | Some n \<Rightarrow> n # steps evs)"
  by (cases "step e") (simp_all add: steps_def List.map_filter_simps)

lemma steps_append [simp]: "steps (xs @ ys) = steps xs @ steps ys"
  by (simp add: steps_def map_filter_append)

lemma steps_same:
  "\<forall>e \<in> set evs. step e = Some n \<Longrightarrow> steps evs = replicate (length evs) n"
  by (induction evs) simp_all

lemma steps_recoveryEvents [simp]: "steps (recoveryEvents env s) = []"
  by (simp add: recoveryEvents_def)

lemma step_alternativeEvents:
  "e \<in> set (alternativeEvents env b key ks) \<Longrightarrow> step e = Some 3"
  by (induction ks) (auto simp add: alternativeEvents_Cons split: option.split_asm)

lemma steps_decryptionEvents:
  "steps (decryptionEvents env b key alts s)
     = replicate (length (decryptionEvents env b key alts s)) 3"
  by (rule steps_same)
    (auto simp add: decryptionEvents_def step_alternativeEvents
      split: option.split_asm if_split_asm)

lemma steps_emitted:
  "\<exists>n. steps (emitted env w) = [] \<or> steps (emitted env w) = [1]
       \<or> steps (emitted env w) = [1, 2]
       \<or> steps (emitted env w) = 1 # 2 # replicate n 3
       \<or> steps (emitted env w) = 1 # 2 # replicate n 3 @ [4]"
  by (auto simp add: emitted_eq steps_decryptionEvents split: option.split sum.split)

lemma length_keysTried: "length (keysTried ends ks) \<le> length ks"
  by (induction ks) (simp_all add: keysTried_Cons)

text \<open>
  C6. When no encrypted session cache is stored for the latest user (the reader returns
  \<open>null\<close> or the empty string), \<open>tryCachedLogin\<close> returns \<open>false\<close> after the cache read
  alone: the server query is not issued. In every run the calls of the four steps appear in
  the order cache read, server query, decryption with fallback, local state write; the
  cache read, the server query and the local state write are made at most once; and the
  decryption step makes at most one attempt for the primary key and one for each
  alternative key the server returned.
\<close>

theorem tryCachedLogin_steps:
  "(window_location env = window_parent_location env
      \<and> (getSessionCacheForLatestUser env (localStorage w) = None
         \<or> getSessionCacheForLatestUser env (localStorage w) = Some '''') \<longrightarrow>
      fst (tryCachedLogin env w) = False
      \<and> emitted env w = [E_getSessionCacheForLatestUser]
      \<and> E_client_query \<notin> set (emitted env w))
   \<and> sorted (steps (emitted env w))
   \<and> count_list (steps (emitted env w)) 1 \<le> 1
   \<and> count_list (steps (emitted env w)) 2 \<le> 1
   \<and> count_list (steps (emitted env w)) 4 \<le> 1
   \<and> length (decryptionAttempts (emitted env w))
        \<le> (case client_query env of
              Inl e \<Rightarrow> 0
            | Inr res \<Rightarrow> 1 + length (alternativeCacheKeys (sessionCache res)))"
proof -
  have noblob: "window_location env = window_parent_location env
      \<and> (getSessionCacheForLatestUser env (localStorage w) = None
         \<or> getSessionCacheForLatestUser env (localStorage w) = Some '''') \<longrightarrow>
      fst (tryCachedLogin env w) = False
      \<and> emitted env w = [E_getSessionCacheForLatestUser]
      \<and> E_client_query \<notin> set (emitted env w)"
    by (auto simp add: fst_tryCachedLogin emitted_eq)
  obtain n where shape: "steps (emitted env w) = [] \<or> steps (emitted env w) = [1]
       \<or> steps (emitted env w) = [1, 2]
       \<or> steps (emitted env w) = 1 # 2 # replicate n 3
       \<or> steps (emitted env w) = 1 # 2 # replicate n 3 @ [4]"
    using steps_emitted by blast
  have ordered: "sorted (steps (emitted env w))"
    using shape by (auto simp add: sorted_append)
  have once: "count_list (steps (emitted env w)) 1 \<le> 1"
    "count_list (steps (emitted env w)) 2 \<le> 1"
    "count_list (steps (emitted env w)) 4 \<le> 1"
    using shape by (auto simp add: count_list_0_iff)
  have attempts: "length (decryptionAttempts (emitted env w))
        \<le> (case client_query env of
              Inl e \<Rightarrow> 0
            | Inr res \<Rightarrow> 1 + length (alternativeCacheKeys (sessionCache res)))"
    by (simp add: emitted_eq decryptionAttempts_decryptionEvents length_keysTried recoveryEvents_def
        split: option.split sum.split)
  from noblob ordered once attempts show ?thesis by blast
qed

theorem tryCachedLogin_steps_witness:
  "window_location ex_env = window_parent_location ex_env
   \<and> getSessionCacheForLatestUser ex_env (localStorage ex_world_empty) = None
   \<and> fst (tryCachedLogin ex_env ex_world_empty) = False
   \<and> emitted ex_env ex_world_empty = [E_getSessionCacheForLatestUser]
   \<and> E_client_query \<notin> set (emitted ex_env ex_world_empty)
   \<and> steps (emitted ex_env ex_world) = [1, 2, 3, 3, 3, 3, 4]"
proof -
  have s: "steps (emitted ex_env ex_world) = [1, 2, 3, 3, 3, 3, 4]"
    by (simp add: emitted_eq eval_defs ex_defs)
  have h: "window_location ex_env = window_parent_location ex_env"
    "getSessionCacheForLatestUser ex_env (localStorage ex_world_empty) = None"
    by (simp_all add: ex_env_def ex_world_empty_def)
  show ?thesis
    using h s tryCachedLogin_steps [of ex_env ex_world_empty] by simp
qed

lemma filter_recoveryEvents [simp]:
  "filter persists (recoveryEvents env s) = []"
  "filter migrates (recoveryEvents env s) = []"
  "filter remedial (recoveryEvents env s) = []"
  by (simp_all add: recoveryEvents_def)

lemma filter_alternativeEvents [simp]:
  "filter persists (alternativeEvents env b key ks) = []"
  "filter remedial (alternativeEvents env b key ks) = []"
  by (induction ks) (simp_all add: alternativeEvents_Cons split: option.split)

lemma filter_decryptionEvents [simp]:
  "filter persists (decryptionEvents env b key alts s) = []"
  "filter remedial (decryptionEvents env b key alts s) = []"
  by (simp_all add: decryptionEvents_def split: option.split)

text \<open>
  C7. A run that returns \<open>true\<close> has saved one user object; it sends that same object to
  the mobile app exactly when \<open>isMobileApp()\<close> holds, and it starts the initialization of
  the default email alias. A run that returns \<open>false\<close> does neither.
\<close>

theorem tryCachedLogin_remedial_actions:
  "(fst (tryCachedLogin env w) \<longrightarrow>
      (\<exists>u. filter persists (emitted env w) = [E_saveCurrentUserData u]
          \<and> filter remedial (emitted env w)
              = (if isMobileApp env then [E_sendUserDataToMobileApp u] else [])
                @ [E_setDefaultEmailAlias]))
   \<and> (\<not> fst (tryCachedLogin env w) \<longrightarrow> filter remedial (emitted env w) = [])"
  by (simp add: fst_tryCachedLogin emitted_eq split: option.split sum.split)

theorem tryCachedLogin_remedial_actions_witness:
  "fst (tryCachedLogin ex_env ex_world)
   \<and> isMobileApp ex_env
   \<and> filter remedial (emitted ex_env ex_world)
       = [E_sendUserDataToMobileApp
            \<lparr>userID = ''u1'', recoveryEmail = Null,
             unverifiedRecoveryEmail = Str ''pending@skiff.com'',
             walletAddress = Str ''0xabc'', rootOrgID = Str ''org2'', publicData = ''fresh'',
             otherFields = ()\<rparr>,
          E_setDefaultEmailAlias]
   \<and> \<not> fst (tryCachedLogin ex_env_offline ex_world)
   \<and> filter remedial (emitted ex_env_offline ex_world) = []"
proof -
  have t: "fst (tryCachedLogin ex_env ex_world)"
    by (simp add: fst_tryCachedLogin eval_defs ex_defs)
  have f: "\<not> fst (tryCachedLogin ex_env_offline ex_world)"
    by (simp add: fst_tryCachedLogin ex_defs)
  have m: "isMobileApp ex_env"
    by (simp add: ex_env_def)
  have s: "filter persists (emitted ex_env ex_world)
      = [E_saveCurrentUserData
            \<lparr>userID = ''u1'', recoveryEmail = Null,
             unverifiedRecoveryEmail = Str ''pending@skiff.com'',
             walletAddress = Str ''0xabc'', rootOrgID = Str ''org2'', publicData = ''fresh'',
             otherFields = ()\<rparr>]"
    by (simp add: emitted_eq eval_defs refreshUserData_def ex_defs)
  show ?thesis
    using t f m s tryCachedLogin_remedial_actions [of ex_env ex_world]
      tryCachedLogin_remedial_actions [of ex_env_offline ex_world]
    by auto
qed

lemma refreshUserData_fields:
  "refreshUserData None u = u"
  "publicData (refreshUserData (Some r) u) = refreshedUser.publicData r"
  "recoveryEmail (refreshUserData (Some r) u)
     = (if refreshedUser.recoveryEmail r \<noteq> Undefined
        then refreshedUser.recoveryEmail r else recoveryEmail u)"
  "unverifiedRecoveryEmail (refreshUserData (Some r) u)
     = (if refreshedUser.unverifiedRecoveryEmail r \<noteq> Undefined
        then refreshedUser.unverifiedRecoveryEmail r else unverifiedRecoveryEmail u)"
  "walletAddress (refreshUserData (Some r) u)
     = (if truthy (refreshedUser.walletAddress r)
        then refreshedUser.walletAddress r else walletAddress u)"
  "rootOrgID (refreshUserData (Some r) u)
     = (if truthy (refreshedUser.rootOrgID r)
        then refreshedUser.rootOrgID r else rootOrgID u)"
  "userID (refreshUserData (Some r) u) = userID u"
  "otherFields (refreshUserData (Some r) u) = otherFields u"
  by (simp_all add: refreshUserData_def Let_def)

text \<open>
  C2, as amended. After a successful decryption exactly one user object is saved with
  \<open>saveCurrentUserData\<close>. When the server response carries a current user, the saved
  object is the decrypted user with \<open>publicData\<close> overwritten by the server's value,
  \<open>recoveryEmail\<close> and \<open>unverifiedRecoveryEmail\<close> overwritten when the server's value is
  not \<open>undefined\<close>, \<open>walletAddress\<close> and \<open>rootOrgID\<close> overwritten when the server's value
  is truthy, and every other field unchanged. When the response carries no current user,
  the saved object is the decrypted user, unchanged.
\<close>

theorem tryCachedLogin_refresh:
  assumes "window_location env = window_parent_location env"
    and "getSessionCacheForLatestUser env (localStorage w) = Some b"
    and "b \<noteq> ''''"
    and "client_query env = Inr res"
    and "found env b (cacheKey (sessionCache res)) (alternativeCacheKeys (sessionCache res))
           (localStorage w) = Some d"
  shows "fst (tryCachedLogin env w)
     \<and> (\<exists>u. filter persists (emitted env w) = [E_saveCurrentUserData u]
          \<and> (case currentUser res of
                None \<Rightarrow> u = user d
              | Some r \<Rightarrow>
                  publicData u = refreshedUser.publicData r
                  \<and> recoveryEmail u
                      = (if refreshedUser.recoveryEmail r \<noteq> Undefined
                         then refreshedUser.recoveryEmail r else recoveryEmail (user d))
                  \<and> unverifiedRecoveryEmail u
                      = (if refreshedUser.unverifiedRecoveryEmail r \<noteq> Undefined
                         then refreshedUser.unverifiedRecoveryEmail r
                         else unverifiedRecoveryEmail (user d))
                  \<and> walletAddress u
                      = (if truthy (refreshedUser.walletAddress r)
                         then refreshedUser.walletAddress r else walletAddress (user d))
                  \<and> rootOrgID u
                      = (if truthy (refreshedUser.rootOrgID r)
                         then refreshedUser.rootOrgID r else rootOrgID (user d))
                  \<and> userID u = userID (user d)
                  \<and> otherFields u = otherFields (user d)))"
  using assms
  by (simp add: fst_tryCachedLogin emitted_eq refreshUserData_fields split: option.split)

theorem tryCachedLogin_refresh_witness:
  "found ex_env ''blob'' ''k1'' [''k2'', ''k3'', ''k4''] (localStorage ex_world) = Some ex_data
   \<and> currentUser ex_response = Some ex_refreshed
   \<and> fst (tryCachedLogin ex_env ex_world)
   \<and> filter persists (emitted ex_env ex_world)
       = [E_saveCurrentUserData
            \<lparr>userID = ''u1'', recoveryEmail = Null,
             unverifiedRecoveryEmail = Str ''pending@skiff.com'',
             walletAddress = Str ''0xabc'', rootOrgID = Str ''org2'', publicData = ''fresh'',
             otherFields = ()\<rparr>]"
proof -
  have h: "window_location ex_env = window_parent_location ex_env"
    "getSessionCacheForLatestUser ex_env (localStorage ex_world) = Some ''blob''"
    "''blob'' \<noteq> ''''"
    "client_query ex_env = Inr ex_response"
    "found ex_env ''blob'' (cacheKey (sessionCache ex_response))
       (alternativeCacheKeys (sessionCache ex_response)) (localStorage ex_world) = Some ex_data"
    by (simp_all add: ex_env_def ex_world_def ex_response_def eval_defs)
  obtain u where u: "filter persists (emitted ex_env ex_world) = [E_saveCurrentUserData u]"
    "publicData u = refreshedUser.publicData ex_refreshed"
    "recoveryEmail u = Null"
    "unverifiedRecoveryEmail u = Str ''pending@skiff.com''"
    "walletAddress u = Str ''0xabc''"
    "rootOrgID u = Str ''org2''"
    "userID u = ''u1''"
    "otherFields u = ()"
    using tryCachedLogin_refresh [OF h]
    by (auto simp add: ex_response_def ex_refreshed_def ex_data_def ex_user_def)
  have "u = \<lparr>userID = ''u1'', recoveryEmail = Null,
             unverifiedRecoveryEmail = Str ''pending@skiff.com'',
             walletAddress = Str ''0xabc'', rootOrgID = Str ''org2'', publicData = ''fresh'',
             otherFields = ()\<rparr>"
    using u(2-8) by (cases u) (simp add: ex_refreshed_def)
  with u(1) h(5) tryCachedLogin_refresh [OF h] show ?thesis
    by (simp add: ex_response_def)
qed

text \<open>
  C2 as first stated lets \<open>publicData\<close> be overwritten after every successful decryption.
  In the run below the primary key decrypts the blob and the server response has no
  current user: the login succeeds and the user that is saved is the cached one, with its
  cached \<open>publicData\<close>.
\<close>

theorem tryCachedLogin_refresh_counterexample:
  "client_query ex_env_no_current_user = Inr (ex_response\<lparr>currentUser := None\<rparr>)
   \<and> decryptSessionCacheData ex_env_no_current_user ''blob'' ''k1'' = Some ex_data
   \<and> fst (tryCachedLogin ex_env_no_current_user ex_world)
   \<and> filter persists (emitted ex_env_no_current_user ex_world) = [E_saveCurrentUserData ex_user]
   \<and> publicData ex_user = ''cached''"
  by (simp add: fst_tryCachedLogin emitted_eq found_def refreshUserData_def ex_defs)

lemma filter_migrates_alternativeEvents:
  "filter migrates (alternativeEvents env b key ks)
     = map (\<lambda>d. E_writeSessionCacheData d key) (decryptedBy env b ks)"
  by (induction ks) (simp_all add: alternativeEvents_Cons decryptedBy_Cons split: option.split)

lemma filter_migrates_decryptionEvents:
  "filter migrates (decryptionEvents env b key alts s) =
     (case decryptSessionCacheData env b key of
        Some d \<Rightarrow>
          if s (getSessionCacheKeyForUserID env (userID (user d))) = None
          then E_writeSessionCacheData d key
               # (if writeSessionCacheData_throws env d key s then []
                  else [E_localStorage_removeItem (storageKey_SESSION_CACHE env)])
          else []
      | None \<Rightarrow>
          map (\<lambda>d. E_writeSessionCacheData d key)
            (decryptedBy env b (keysTried (endsIteration env b key s) alts)))"
  by (simp add: decryptionEvents_def filter_migrates_alternativeEvents split: option.split)

lemma find_endsIteration:
  "List.find (endsIteration env b key s) ks = Some k \<Longrightarrow>
     \<exists>d. decryptSessionCacheData env b k = Some d
        \<and> \<not> writeSessionCacheData_throws env d key s
        \<and> decryptedBy env b (keysTried (endsIteration env b key s) ks) \<noteq> []
        \<and> last (decryptedBy env b (keysTried (endsIteration env b key s) ks)) = d"
proof (induction ks)
  case Nil
  then show ?case by simp
next
  case (Cons a ks)
  show ?case
  proof (cases "endsIteration env b key s a")
    case True
    with Cons.prems have "k = a" by simp
    with True show ?thesis
      by (auto simp add: keysTried_Cons decryptedBy_Cons endsIteration_def split: option.split_asm)
  next
    case False
    with Cons.prems have "List.find (endsIteration env b key s) ks = Some k" by simp
    from Cons.IH [OF this] False show ?thesis
      by (auto simp add: keysTried_Cons decryptedBy_Cons split: option.split)
  qed
qed

text \<open>
  C4, as amended. The storage migration after a successful decryption, as far as
  \<open>writeSessionCacheData\<close> returns. If the primary key decrypts the blob and local storage
  has no entry under the per-user-ID key, the write is called with the primary key; when it
  returns, the encrypted data is stored under the per-user-ID key and the entry under the
  old \<open>SESSION_CACHE\<close> key is removed; when it throws, nothing is stored or removed and the
  login goes on (with an entry present, nothing is written or removed). If the primary key
  fails, the write is called with the primary key, not with the key that decrypted, for
  each alternative key tried that decrypts the blob; the first of these writes that returns
  stores the encrypted data under the per-user-ID key, and if none returns the storage is
  left as it was.
\<close>

theorem tryCachedLogin_storage_migration:
  assumes "window_location env = window_parent_location env"
    and "getSessionCacheForLatestUser env (localStorage w) = Some b"
    and "b \<noteq> ''''"
    and "client_query env = Inr res"
  shows "(\<forall>d. decryptSessionCacheData env b (cacheKey (sessionCache res)) = Some d \<longrightarrow>
            fst (tryCachedLogin env w)
            \<and> (if localStorage w (getSessionCacheKeyForUserID env (userID (user d))) = None
               then
                 (if writeSessionCacheData_throws env d (cacheKey (sessionCache res)) (localStorage w)
                  then filter migrates (emitted env w)
                         = [E_writeSessionCacheData d (cacheKey (sessionCache res))]
                       \<and> localStorage (snd (tryCachedLogin env w))
                         = saveCurrentUserData env (refreshUserData (currentUser res) (user d))
                             (localStorage w)
                  else filter migrates (emitted env w)
                         = [E_writeSessionCacheData d (cacheKey (sessionCache res)),
                            E_localStorage_removeItem (storageKey_SESSION_CACHE env)]
                       \<and> localStorage (snd (tryCachedLogin env w))
                         = saveCurrentUserData env (refreshUserData (currentUser res) (user d))
                             (removeItem (storageKey_SESSION_CACHE env)
                                ((localStorage w)
                                   (getSessionCacheKeyForUserID env (userID (user d))
                                      \<mapsto> encryptSessionCacheData env d (cacheKey (sessionCache res))))))
               else filter migrates (emitted env w) = []
                    \<and> localStorage (snd (tryCachedLogin env w))
                      = saveCurrentUserData env (refreshUserData (currentUser res) (user d))
                          (localStorage w)))
     \<and> (decryptSessionCacheData env b (cacheKey (sessionCache res)) = None \<longrightarrow>
          filter migrates (emitted env w)
            = map (\<lambda>d. E_writeSessionCacheData d (cacheKey (sessionCache res)))
                (decryptedBy env b
                   (keysTried (endsIteration env b (cacheKey (sessionCache res)) (localStorage w))
                      (alternativeCacheKeys (sessionCache res))))
          \<and> (\<forall>k. List.find (endsIteration env b (cacheKey (sessionCache res)) (localStorage w))
                    (alternativeCacheKeys (sessionCache res)) = Some k \<longrightarrow>
                (\<exists>d. decryptSessionCacheData env b k = Some d
                    \<and> fst (tryCachedLogin env w)
                    \<and> localStorage (snd (tryCachedLogin env w))
                        = saveCurrentUserData env (refreshUserData (currentUser res) (user d))
                            ((localStorage w)
                               (getSessionCacheKeyForUserID env (userID (user d))
                                  \<mapsto> encryptSessionCacheData env d (cacheKey (sessionCache res))))))
          \<and> (List.find (endsIteration env b (cacheKey (sessionCache res)) (localStorage w))
                 (alternativeCacheKeys (sessionCache res)) = None \<longrightarrow>
                (\<forall>d. found env b (cacheKey (sessionCache res))
                        (alternativeCacheKeys (sessionCache res)) (localStorage w) = Some d \<longrightarrow>
                   localStorage (snd (tryCachedLogin env w))
                     = saveCurrentUserData env (refreshUserData (currentUser res) (user d))
                         (localStorage w))))"
proof -
  let ?key = "cacheKey (sessionCache res)"
  let ?alts = "alternativeCacheKeys (sessionCache res)"
  let ?s = "localStorage w"
  have primary: "\<forall>d. decryptSessionCacheData env b ?key = Some d \<longrightarrow>
            fst (tryCachedLogin env w)
            \<and> (if ?s (getSessionCacheKeyForUserID env (userID (user d))) = None
               then
                 (if writeSessionCacheData_throws env d ?key ?s
                  then filter migrates (emitted env w) = [E_writeSessionCacheData d ?key]
                       \<and> localStorage (snd (tryCachedLogin env w))
                         = saveCurrentUserData env (refreshUserData (currentUser res) (user d)) ?s
                  else filter migrates (emitted env w)
                         = [E_writeSessionCacheData d ?key,
                            E_localStorage_removeItem (storageKey_SESSION_CACHE env)]
                       \<and> localStorage (snd (tryCachedLogin env w))
                         = saveCurrentUserData env (refreshUserData (currentUser res) (user d))
                             (removeItem (storageKey_SESSION_CACHE env)
                                (?s(getSessionCacheKeyForUserID env (userID (user d))
                                      \<mapsto> encryptSessionCacheData env d ?key))))
               else filter migrates (emitted env w) = []
                    \<and> localStorage (snd (tryCachedLogin env w))
                      = saveCurrentUserData env (refreshUserData (currentUser res) (user d)) ?s)"
    using assms
    by (simp add: fst_tryCachedLogin emitted_eq localStorage_tryCachedLogin
        filter_migrates_decryptionEvents found_def migratedStorage_def stored_def)
  have calls: "filter migrates (emitted env w)
            = map (\<lambda>d. E_writeSessionCacheData d ?key)
                (decryptedBy env b (keysTried (endsIteration env b ?key ?s) ?alts))"
    if "decryptSessionCacheData env b ?key = None"
    using assms that
    by (simp add: emitted_eq filter_migrates_decryptionEvents split: option.split)
  have ended: "\<exists>d. decryptSessionCacheData env b k = Some d
                    \<and> fst (tryCachedLogin env w)
                    \<and> localStorage (snd (tryCachedLogin env w))
                        = saveCurrentUserData env (refreshUserData (currentUser res) (user d))
                            (?s(getSessionCacheKeyForUserID env (userID (user d))
                                  \<mapsto> encryptSessionCacheData env d ?key))"
    if none: "decryptSessionCacheData env b ?key = None"
      and k: "List.find (endsIteration env b ?key ?s) ?alts = Some k" for k
  proof -
    obtain d where d: "decryptSessionCacheData env b k = Some d"
      "decryptedBy env b (keysTried (endsIteration env b ?key ?s) ?alts) \<noteq> []"
      "last (decryptedBy env b (keysTried (endsIteration env b ?key ?s) ?alts)) = d"
      using find_endsIteration [OF k] by blast
    have f: "found env b ?key ?alts ?s = Some d"
      using none d by (simp add: found_def)
    show ?thesis
      using assms none k d(1) f
      by (simp add: fst_tryCachedLogin localStorage_tryCachedLogin migratedStorage_def stored_def)
  qed
  have not_ended: "localStorage (snd (tryCachedLogin env w))
                     = saveCurrentUserData env (refreshUserData (currentUser res) (user d)) ?s"
    if "decryptSessionCacheData env b ?key = None"
      and "List.find (endsIteration env b ?key ?s) ?alts = None"
      and "found env b ?key ?alts ?s = Some d" for d
    using assms that
    by (simp add: localStorage_tryCachedLogin migratedStorage_def)
  from primary calls ended not_ended show ?thesis by blast
qed

theorem tryCachedLogin_storage_migration_witness:
  "decryptSessionCacheData ex_env_primary ''blob'' ''k1'' = Some ex_data
   \<and> localStorage ex_world (getSessionCacheKeyForUserID ex_env_primary ''u1'') = None
   \<and> filter migrates (emitted ex_env_primary ex_world)
       = [E_writeSessionCacheData ex_data ''k1'', E_localStorage_removeItem ''skiff:sessionCache'']
   \<and> localStorage (snd (tryCachedLogin ex_env_primary ex_world)) ''skiff:sessionCache'' = None
   \<and> localStorage (snd (tryCachedLogin ex_env_primary ex_world)) ''skiff:sessionCache:u1''
       = Some ''blob-k1''
   \<and> decryptSessionCacheData ex_env ''blob'' ''k1'' = None
   \<and> List.find (endsIteration ex_env ''blob'' ''k1'' (localStorage ex_world)) [''k2'', ''k3'', ''k4'']
       = Some ''k3''
   \<and> filter migrates (emitted ex_env ex_world) = [E_writeSessionCacheData ex_data ''k1'']
   \<and> localStorage (snd (tryCachedLogin ex_env ex_world)) ''skiff:sessionCache:u1''
       = Some ''blob-k1''
   \<and> List.find (endsIteration ex_env_full ''blob'' ''k1'' (localStorage ex_world))
         [''k2'', ''k3'', ''k4''] = None
   \<and> filter migrates (emitted ex_env_full ex_world)
       = [E_writeSessionCacheData ex_data ''k1'', E_writeSessionCacheData ex_data ''k1'']
   \<and> localStorage (snd (tryCachedLogin ex_env_full ex_world)) = localStorage ex_world"
proof -
  have nz: "''blob'' \<noteq> ''''" by simp
  have p: "window_location ex_env_primary = window_parent_location ex_env_primary"
    "getSessionCacheForLatestUser ex_env_primary (localStorage ex_world) = Some ''blob''"
    "client_query ex_env_primary = Inr ex_response"
    by (simp_all add: ex_env_primary_def ex_env_def ex_world_def)
  have a: "window_location ex_env = window_parent_location ex_env"
    "getSessionCacheForLatestUser ex_env (localStorage ex_world) = Some ''blob''"
    "client_query ex_env = Inr ex_response"
    by (simp_all add: ex_env_def ex_world_def)
  have f: "window_location ex_env_full = window_parent_location ex_env_full"
    "getSessionCacheForLatestUser ex_env_full (localStorage ex_world) = Some ''blob''"
    "client_query ex_env_full = Inr ex_response"
    by (simp_all add: ex_env_full_def ex_env_def ex_world_def)
  have pd: "decryptSessionCacheData ex_env_primary ''blob'' (cacheKey (sessionCache ex_response))
              = Some ex_data"
    "localStorage ex_world (getSessionCacheKeyForUserID ex_env_primary (userID (user ex_data))) = None"
    "\<not> writeSessionCacheData_throws ex_env_primary ex_data (cacheKey (sessionCache ex_response))
         (localStorage ex_world)"
    by (simp_all add: ex_defs)
  have ad: "decryptSessionCacheData ex_env ''blob'' (cacheKey (sessionCache ex_response)) = None"
    "List.find (endsIteration ex_env ''blob'' (cacheKey (sessionCache ex_response))
       (localStorage ex_world)) (alternativeCacheKeys (sessionCache ex_response)) = Some ''k3''"
    "decryptSessionCacheData ex_env ''blob'' ''k3'' = Some ex_data"
    by (simp_all add: ex_env_def ex_response_def endsIteration_def)
  have fd: "decryptSessionCacheData ex_env_full ''blob'' (cacheKey (sessionCache ex_response)) = None"
    "List.find (endsIteration ex_env_full ''blob'' (cacheKey (sessionCache ex_response))
       (localStorage ex_world)) (alternativeCacheKeys (sessionCache ex_response)) = None"
    "found ex_env_full ''blob'' (cacheKey (sessionCache ex_response))
       (alternativeCacheKeys (sessionCache ex_response)) (localStorage ex_world) = Some ex_data"
    by (simp_all add: ex_env_full_def ex_env_def ex_response_def eval_defs)
  have primary: "filter migrates (emitted ex_env_primary ex_world)
       = [E_writeSessionCacheData ex_data ''k1'', E_localStorage_removeItem ''skiff:sessionCache'']
   \<and> localStorage (snd (tryCachedLogin ex_env_primary ex_world)) ''skiff:sessionCache'' = None
   \<and> localStorage (snd (tryCachedLogin ex_env_primary ex_world)) ''skiff:sessionCache:u1''
       = Some ''blob-k1''"
    using pd tryCachedLogin_storage_migration [OF p(1) p(2) nz p(3)]
    by (simp add: ex_defs removeItem_def)
  have alternative: "filter migrates (emitted ex_env ex_world) = [E_writeSessionCacheData ex_data ''k1'']
   \<and> localStorage (snd (tryCachedLogin ex_env ex_world)) ''skiff:sessionCache:u1''
       = Some ''blob-k1''"
    using ad tryCachedLogin_storage_migration [OF a(1) a(2) nz a(3)]
    by (simp add: ex_defs eval_defs)
  have full: "filter migrates (emitted ex_env_full ex_world)
       = [E_writeSessionCacheData ex_data ''k1'', E_writeSessionCacheData ex_data ''k1'']
   \<and> localStorage (snd (tryCachedLogin ex_env_full ex_world)) = localStorage ex_world"
    using fd tryCachedLogin_storage_migration [OF f(1) f(2) nz f(3)]
    by (simp add: ex_defs eval_defs)
  from primary alternative full pd(1,2) ad(1,2) fd(2) show ?thesis
    by (simp add: ex_defs)
qed

text \<open>
  C4 as first stated migrates the storage on every successful decryption. In the run below
  the primary key decrypts the blob, no entry exists under the per-user-ID key and the
  write throws: the login succeeds, nothing is stored under the per-user-ID key and the
  entry under the old key is still there.
\<close>

theorem tryCachedLogin_storage_migration_counterexample:
  "decryptSessionCacheData ex_env_primary_full ''blob'' ''k1'' = Some ex_data
   \<and> localStorage ex_world (getSessionCacheKeyForUserID ex_env_primary_full ''u1'') = None
   \<and> writeSessionCacheData ex_env_primary_full ex_data ''k1'' (localStorage ex_world) = None
   \<and> fst (tryCachedLogin ex_env_primary_full ex_world)
   \<and> filter migrates (emitted ex_env_primary_full ex_world)
       = [E_writeSessionCacheData ex_data ''k1'']
   \<and> localStorage (snd (tryCachedLogin ex_env_primary_full ex_world)) ''skiff:sessionCache''
       = Some ''blob''
   \<and> localStorage (snd (tryCachedLogin ex_env_primary_full ex_world)) ''skiff:sessionCache:u1''
       = None"
  by (simp add: fst_tryCachedLogin emitted_eq localStorage_tryCachedLogin
      filter_migrates_decryptionEvents writeSessionCacheData_def found_def migratedStorage_def
      ex_defs)

end
